theory Spec2Isabelle
  imports Complex_Main "HOL-Library.AList" "HOL-Library.Char_ord"
    "HOL-Library.List_Lexorder" "HOL-Library.Multiset"
begin

section \<open>JavaScript values\<close>

text \<open>
  The server is an Express application. Request bodies, store rows and response bodies
  are JSON values; a field that is not there reads as \<open>undefined\<close>. Numbers are kept
  as exact rationals together with the three special values of the language; the numbers
  a request can hold are the doubles among them (negative zero apart). The handlers only
  test a number for being falsy and pass numbers on: reading a number from a value is
  left to the builtins of the runtime.
\<close>

datatype jsnum = NaN | Infinity | NegInfinity | Fin rat

datatype jsval =
    JUndefined
  | JNull
  | JBool bool
  | JNum jsnum
  | JStr string
  | JArr "jsval list"
  | JObj "(string \<times> jsval) list"

text \<open>\<open>!v\<close> of the language is \<open>\<not> truthy v\<close>.\<close>

fun truthy :: "jsval \<Rightarrow> bool" where
  "truthy JUndefined = False"
| "truthy JNull = False"
| "truthy (JBool b) = b"
| "truthy (JNum NaN) = False"
| "truthy (JNum (Fin q)) = (q \<noteq> 0)"
| "truthy (JNum _) = True"
| "truthy (JStr s) = (s \<noteq> [])"
| "truthy (JArr _) = True"
| "truthy (JObj _) = True"

text \<open>Reading a property of an object: \<open>o.k\<close>, \<open>undefined\<close> when the key is not there.
  An object is the list of its entries, each key once.\<close>

definition field :: "(string \<times> jsval) list \<Rightarrow> string \<Rightarrow> jsval" where
  "field obj k = (case map_of obj k of None \<Rightarrow> JUndefined | Some v \<Rightarrow> v)"

text \<open>\<open>s.split(c)\<close> for a one-character separator: every occurrence separates, so two
  separators in a row enclose an empty segment and a string without the separator is one
  segment.\<close>

fun split :: "char \<Rightarrow> string \<Rightarrow> string list" where
  "split c [] = [[]]"
| "split c (x # xs) =
     (if x = c then [] # split c xs
      else (case split c xs of
              [] \<Rightarrow> [[x]]
            | seg # segs \<Rightarrow> (x # seg) # segs))"

text \<open>\<open>xs[i]\<close>: \<open>undefined\<close> (here \<open>None\<close>) out of range.\<close>

definition index :: "'a list \<Rightarrow> nat \<Rightarrow> 'a option" where
  "index xs i = (if i < length xs then Some (xs ! i) else None)"

section \<open>Responses\<close>

record response =
  status :: nat
  body :: jsval

definition json :: "nat \<Rightarrow> jsval \<Rightarrow> response" where
  "json st v = \<lparr>status = st, body = v\<rparr>"

definition error_json :: "nat \<Rightarrow> string \<Rightarrow> response" where
  "error_json st msg = json st (JObj [(''error'', JStr msg)])"

section \<open>Auth middleware\<close>

text \<open>
  The identity service (\<open>supabaseAdmin.auth.getUser\<close>) is external: a call either throws
  or resolves to a pair of a user (or null) and an error (or null).
\<close>

datatype user = User (uid: string)

datatype auth_reply = Throws | Reply "user option" "string option"

text \<open>The middleware either ends the request with a response, or calls \<open>next()\<close> with
  \<open>req.user\<close> set and \<open>req.supabase\<close> a client that presents the token.\<close>

datatype auth_result = Rejected response | Next user string

definition authenticateUser :: "(string \<Rightarrow> auth_reply) \<Rightarrow> string option \<Rightarrow> auth_result" where
  "authenticateUser getUser authorization =
     (case authorization of
        None \<Rightarrow> Rejected (error_json 401 ''No token provided'')
      | Some authHeader \<Rightarrow>
          if authHeader = [] then Rejected (error_json 401 ''No token provided'')
          else
            (case index (split CHR '' '' authHeader) 1 of
               None \<Rightarrow> Rejected (error_json 401 ''Invalid authorization format'')
             | Some token \<Rightarrow>
                 if token = [] then Rejected (error_json 401 ''Invalid authorization format'')
                 else
                   (case getUser token of
                      Throws \<Rightarrow> Rejected (error_json 500 ''Authentication failed'')
                    | Reply u err \<Rightarrow>
                        (case (err, u) of
                           (None, Some usr) \<Rightarrow> Next usr token
                         | _ \<Rightarrow> Rejected (error_json 401 ''Invalid token'')))))"

section \<open>Queries sent to the store\<close>

text \<open>
  The store is reached through the query builder of its client library:
  \<open>from(t)\<close>, then one of \<open>select\<close>, \<open>insert\<close>, \<open>update\<close>, \<open>delete\<close>, then the
  filters \<open>eq(column, value)\<close>, the \<open>order(column, {ascending})\<close> clauses, an optional
  \<open>select()\<close> that asks a mutation for the rows it wrote, and an optional \<open>single()\<close>.
  A query is the record of that chain. The column list of a \<open>select\<close> is kept without
  its layout whitespace, which the client strips.
\<close>

datatype verb =
    Select string
  | Insert "(string \<times> jsval) list"
  | Update "(string \<times> jsval) list"
  | Delete

record query =
  table :: string
  verb :: verb
  eqs :: "(string \<times> string) list"
  orders :: "(string \<times> bool) list"
  returning :: bool
  single :: bool

text \<open>Awaiting a query gives \<open>{data, error}\<close>; of the error only its message is read.\<close>

record result =
  data :: jsval
  error :: "string option"

text \<open>A handler is a program that ends with a response and may await queries before;
  what it does next depends on what the store answered.\<close>

datatype prog = Respond response | Call query "result \<Rightarrow> prog"

inductive issued :: "prog \<Rightarrow> query \<Rightarrow> bool" where
  here: "issued (Call q k) q"
| later: "issued (k r) q' \<Longrightarrow> issued (Call q k) q'"

text \<open>Running a program against a store: the response, the store afterwards and the
  queries that were sent, in order.\<close>

primrec run :: "(query \<Rightarrow> 'db \<Rightarrow> result \<times> 'db) \<Rightarrow> prog \<Rightarrow> 'db \<Rightarrow> response \<times> 'db \<times> query list" where
  "run exec (Respond r) db = (r, db, [])"
| "run exec (Call q k) db =
     (case exec q db of (res, db') \<Rightarrow>
        (case run exec (k res) db' of (r, db'', qs) \<Rightarrow> (r, db'', q # qs)))"

section \<open>What the handlers take from the runtime\<close>

text \<open>
  The handlers call two builtins of the language, \<open>parseInt\<close> and \<open>parseFloat\<close>, and read
  the clock. A builtin either returns a number or throws (it throws, for one, on an
  object that cannot be converted to a string); a \<open>TypeError\<close> raised by the engine
  carries a message of the engine's own. None of this is code of the server, so the
  handlers are modelled for any runtime:
  \<^item> \<open>now\<close> is \<open>new Date().toISOString()\<close> at the time of the request;
  \<^item> \<open>parseInt v\<close> and \<open>parseFloat v\<close> are \<open>Inr\<close> the number returned, or \<open>Inl\<close> the
    message of the error thrown;
  \<^item> \<open>type_error p v\<close> is the message of the \<open>TypeError\<close> raised when the property \<open>p\<close>
    is read from, or called on, the value \<open>v\<close>.
\<close>

record runtime =
  now :: string
  parseInt :: "jsval \<Rightarrow> string + jsnum"
  parseFloat :: "jsval \<Rightarrow> string + jsnum"
  type_error :: "string \<Rightarrow> jsval \<Rightarrow> string"

text \<open>\<open>a || b\<close>\<close>

definition or_else :: "jsval \<Rightarrow> jsval \<Rightarrow> jsval" where
  "or_else a b = (if truthy a then a else b)"

text \<open>The properties \<open>sets: parseInt(sets), reps: parseInt(reps), weight: parseFloat(weight)\<close>
  of an object literal are evaluated in this order; the first call that throws ends the
  evaluation.\<close>

definition coerced :: "runtime \<Rightarrow> jsval \<Rightarrow> jsval \<Rightarrow> jsval \<Rightarrow> string + jsnum \<times> jsnum \<times> jsnum" where
  "coerced rt sets reps weight =
     (case parseInt rt sets of
        Inl e \<Rightarrow> Inl e
      | Inr s \<Rightarrow>
          (case parseInt rt reps of
             Inl e \<Rightarrow> Inl e
           | Inr r \<Rightarrow>
               (case parseFloat rt weight of
                  Inl e \<Rightarrow> Inl e
                | Inr w \<Rightarrow> Inr (s, r, w))))"

text \<open>A runtime for requests that call no builtin: should one be called all the same, it
  throws and the answer is 500 \<open>not called\<close>.\<close>

abbreviation idle :: runtime where
  "idle \<equiv> \<lparr>now = ''2024-01-05T10:00:00.000Z'',
           parseInt = (\<lambda>v. Inl ''not called''),
           parseFloat = (\<lambda>v. Inl ''not called''),
           type_error = (\<lambda>p v. ''TypeError'')\<rparr>"

text \<open>A runtime for the examples that do call the builtins. Its table gives what the
  language gives at the values the examples hold: \<open>parseInt('3')\<close> is 3, a small whole
  number is read back as itself, \<open>undefined\<close> is read as \<open>NaN\<close>, and the object
  \<open>{"toString": 1}\<close>, which cannot be converted to a string, makes both builtins throw
  a \<open>TypeError\<close>.\<close>

abbreviation unprintable :: jsval where
  "unprintable \<equiv> JObj [(''toString'', JNum (Fin 1))]"

abbreviation tabled :: runtime where
  "tabled \<equiv> idle
     \<lparr>parseInt := (\<lambda>v. if v = JStr ''3'' then Inr (Fin 3)
                       else if v = JNum (Fin 10) then Inr (Fin 10)
                       else if v = JNum (Fin 3) then Inr (Fin 3)
                       else if v = JNum (Fin 1) then Inr (Fin 1)
                       else if v = JUndefined then Inr NaN
                       else if v = unprintable
                         then Inl ''Cannot convert object to primitive value''
                       else Inl ''not called''),
      parseFloat := (\<lambda>v. if v = JStr ''72.5'' then Inr (Fin (145 / 2))
                         else if v = JNum (Fin 50) then Inr (Fin 50)
                         else if v = JNum (Fin 1) then Inr (Fin 1)
                         else if v = JNum (Fin 0) then Inr (Fin 0)
                         else if v = JUndefined then Inr NaN
                         else if v = unprintable
                           then Inl ''Cannot convert object to primitive value''
                         else Inl ''not called'')\<rparr>"

section \<open>Route handlers\<close>

text \<open>
  Each handler runs after the middleware, with \<open>req.user\<close> set; \<open>req.params\<close> are
  strings and \<open>req.body\<close> is the object parsed from the JSON body. Its body is a \<open>try\<close>
  block: whatever is thrown inside (a store error, an error of a builtin, a
  \<open>TypeError\<close>) is caught and answered with status 500 and the error's message.
\<close>

text \<open>\<open>from(t)\<close> with a verb and its \<open>eq\<close> filters, before any \<open>order\<close>, \<open>select()\<close> or
  \<open>single()\<close>.\<close>

definition from_table :: "string \<Rightarrow> verb \<Rightarrow> (string \<times> string) list \<Rightarrow> query" where
  "from_table t v fs =
     \<lparr>table = t, verb = v, eqs = fs, orders = [], returning = False, single = False\<rparr>"

definition or_throw :: "result \<Rightarrow> prog \<Rightarrow> prog" where
  "or_throw res p = (case error res of Some msg \<Rightarrow> Respond (error_json 500 msg) | None \<Rightarrow> p)"

subsection \<open>GET /api/workouts\<close>

text \<open>
  \<open>w.exercises[0]?.count || 0\<close>: reading \<open>exercises\<close> of \<open>null\<close>, or element 0 of
  \<open>undefined\<close> or \<open>null\<close>, raises a \<open>TypeError\<close>. A row that is no object and not
  \<open>null\<close> has no \<open>exercises\<close>, so element 0 is read from \<open>undefined\<close>.
\<close>

definition element0 :: "runtime \<Rightarrow> jsval \<Rightarrow> string + jsval" where
  "element0 rt v =
     (case v of
        JUndefined \<Rightarrow> Inl (type_error rt ''0'' v)
      | JNull \<Rightarrow> Inl (type_error rt ''0'' v)
      | JArr xs \<Rightarrow> (case xs of [] \<Rightarrow> Inr JUndefined | x # _ \<Rightarrow> Inr x)
      | JObj fs \<Rightarrow> Inr (field fs ''0'')
      | JStr s \<Rightarrow> (case s of [] \<Rightarrow> Inr JUndefined | c # _ \<Rightarrow> Inr (JStr [c]))
      | _ \<Rightarrow> Inr JUndefined)"

definition count_of :: "jsval \<Rightarrow> jsval" where
  "count_of v = (case v of JObj fs \<Rightarrow> field fs ''count'' | _ \<Rightarrow> JUndefined)"

definition with_exercise_count :: "runtime \<Rightarrow> jsval \<Rightarrow> string + jsval" where
  "with_exercise_count rt w =
     (case w of
        JObj fs \<Rightarrow>
          (case element0 rt (field fs ''exercises'') of
             Inl e \<Rightarrow> Inl e
           | Inr x \<Rightarrow>
               Inr (JObj (AList.update ''exercise_count''
                            (or_else (count_of x) (JNum (Fin 0))) fs)))
      | JUndefined \<Rightarrow> Inl (type_error rt ''exercises'' w)
      | JNull \<Rightarrow> Inl (type_error rt ''exercises'' w)
      | _ \<Rightarrow> Inl (type_error rt ''0'' JUndefined))"

fun map_rows :: "(jsval \<Rightarrow> string + jsval) \<Rightarrow> jsval list \<Rightarrow> string + jsval list" where
  "map_rows f [] = Inr []"
| "map_rows f (x # xs) =
     (case f x of
        Inl e \<Rightarrow> Inl e
      | Inr y \<Rightarrow> (case map_rows f xs of Inl e \<Rightarrow> Inl e | Inr ys \<Rightarrow> Inr (y # ys)))"

definition workouts_list :: "user \<Rightarrow> query" where
  "workouts_list usr =
     (from_table ''workouts'' (Select ''*,exercises:exercises(count)'')
        [(''user_id'', uid usr)])
       \<lparr>orders := [(''workout_date'', False), (''created_at'', False)]\<rparr>"

definition get_workouts :: "runtime \<Rightarrow> user \<Rightarrow> prog" where
  "get_workouts rt usr =
     Call (workouts_list usr)
       (\<lambda>res. or_throw res
          (case data res of
             JArr rows \<Rightarrow>
               (case map_rows (with_exercise_count rt) rows of
                  Inl e \<Rightarrow> Respond (error_json 500 e)
                | Inr workouts \<Rightarrow> Respond (json 200 (JObj [(''workouts'', JArr workouts)])))
           | _ \<Rightarrow> Respond (error_json 500 (type_error rt ''map'' (data res)))))"

subsection \<open>GET /api/workouts/:id\<close>

definition workout_by_id :: "user \<Rightarrow> string \<Rightarrow> query" where
  "workout_by_id usr ident =
     (from_table ''workouts'' (Select ''*,exercises(*)'')
        [(''id'', ident), (''user_id'', uid usr)])
       \<lparr>single := True\<rparr>"

definition get_workout :: "user \<Rightarrow> string \<Rightarrow> prog" where
  "get_workout usr ident =
     Call (workout_by_id usr ident)
       (\<lambda>res. or_throw res
          (if \<not> truthy (data res) then Respond (error_json 404 ''Workout not found'')
           else Respond (json 200 (JObj [(''workout'', data res)]))))"

subsection \<open>POST /api/workouts\<close>

definition workout_insert :: "user \<Rightarrow> jsval \<Rightarrow> jsval \<Rightarrow> jsval \<Rightarrow> query" where
  "workout_insert usr name workout_date notes =
     (from_table ''workouts''
        (Insert [(''user_id'', JStr (uid usr)), (''name'', name),
                 (''workout_date'', workout_date),
                 (''notes'', or_else notes JNull)]) [])
       \<lparr>returning := True, single := True\<rparr>"

definition post_workout :: "user \<Rightarrow> (string \<times> jsval) list \<Rightarrow> prog" where
  "post_workout usr req_body =
     (let name = field req_body ''name'';
          workout_date = field req_body ''workout_date'';
          notes = field req_body ''notes''
      in if \<not> truthy name \<or> \<not> truthy workout_date
         then Respond (error_json 400 ''Name and date are required'')
         else
           Call (workout_insert usr name workout_date notes)
             (\<lambda>res. or_throw res (Respond (json 201 (JObj [(''workout'', data res)])))))"

subsection \<open>PATCH /api/workouts/:id\<close>

definition workout_update :: "string \<Rightarrow> user \<Rightarrow> string \<Rightarrow> (string \<times> jsval) list \<Rightarrow> query" where
  "workout_update updated_at usr ident req_body =
     (from_table ''workouts''
        (Update [(''name'', field req_body ''name''),
                 (''workout_date'', field req_body ''workout_date''),
                 (''notes'', field req_body ''notes''),
                 (''updated_at'', JStr updated_at)])
        [(''id'', ident), (''user_id'', uid usr)])
       \<lparr>returning := True, single := True\<rparr>"

definition patch_workout :: "runtime \<Rightarrow> user \<Rightarrow> string \<Rightarrow> (string \<times> jsval) list \<Rightarrow> prog" where
  "patch_workout rt usr ident req_body =
     Call (workout_update (now rt) usr ident req_body)
       (\<lambda>res. or_throw res (Respond (json 200 (JObj [(''workout'', data res)]))))"

subsection \<open>DELETE /api/workouts/:id\<close>

definition workout_delete :: "user \<Rightarrow> string \<Rightarrow> query" where
  "workout_delete usr ident =
     from_table ''workouts'' Delete [(''id'', ident), (''user_id'', uid usr)]"

definition delete_workout :: "user \<Rightarrow> string \<Rightarrow> prog" where
  "delete_workout usr ident =
     Call (workout_delete usr ident)
       (\<lambda>res. or_throw res
          (Respond (json 200 (JObj [(''message'', JStr ''Workout deleted successfully'')]))))"

subsection \<open>GET /api/workouts/:workoutId/exercises\<close>

definition exercises_list :: "string \<Rightarrow> query" where
  "exercises_list workoutId =
     (from_table ''exercises'' (Select ''*'') [(''workout_id'', workoutId)])
       \<lparr>orders := [(''created_at'', True)]\<rparr>"

definition get_exercises :: "user \<Rightarrow> string \<Rightarrow> prog" where
  "get_exercises usr workoutId =
     Call (exercises_list workoutId)
       (\<lambda>res. or_throw res (Respond (json 200 (JObj [(''exercises'', data res)]))))"

subsection \<open>POST /api/workouts/:workoutId/exercises\<close>

text \<open>The ownership check reads only \<open>data\<close> of its answer; the error is not looked at.\<close>

definition workout_owned :: "user \<Rightarrow> string \<Rightarrow> query" where
  "workout_owned usr workoutId =
     (from_table ''workouts'' (Select ''id'')
        [(''id'', workoutId), (''user_id'', uid usr)])
       \<lparr>single := True\<rparr>"

text \<open>\<open>sets\<close>, \<open>reps\<close> and \<open>weight\<close> are what the coercions returned.\<close>

definition exercise_insert :: "user \<Rightarrow> string \<Rightarrow> jsval \<Rightarrow> jsnum \<Rightarrow> jsnum \<Rightarrow> jsnum \<Rightarrow> query" where
  "exercise_insert usr workoutId exercise_name sets reps weight =
     (from_table ''exercises''
        (Insert [(''workout_id'', JStr workoutId),
                 (''user_id'', JStr (uid usr)),
                 (''exercise_name'', exercise_name),
                 (''sets'', JNum sets),
                 (''reps'', JNum reps),
                 (''weight'', JNum weight)]) [])
       \<lparr>returning := True, single := True\<rparr>"

definition post_exercise :: "runtime \<Rightarrow> user \<Rightarrow> string \<Rightarrow> (string \<times> jsval) list \<Rightarrow> prog" where
  "post_exercise rt usr workoutId req_body =
     (let exercise_name = field req_body ''exercise_name'';
          sets = field req_body ''sets'';
          reps = field req_body ''reps'';
          weight = field req_body ''weight''
      in if \<not> truthy exercise_name \<or> \<not> truthy sets \<or> \<not> truthy reps \<or> weight = JUndefined
         then Respond (error_json 400 ''All fields are required'')
         else
           Call (workout_owned usr workoutId)
             (\<lambda>found.
                if \<not> truthy (data found) then Respond (error_json 404 ''Workout not found'')
                else
                  (case coerced rt sets reps weight of
                     Inl e \<Rightarrow> Respond (error_json 500 e)
                   | Inr (s, r, w) \<Rightarrow>
                       Call (exercise_insert usr workoutId exercise_name s r w)
                         (\<lambda>res. or_throw res
                            (Respond (json 201 (JObj [(''exercise'', data res)])))))))"

subsection \<open>PATCH /api/exercises/:id\<close>

definition exercise_update :: "string \<Rightarrow> jsval \<Rightarrow> jsnum \<Rightarrow> jsnum \<Rightarrow> jsnum \<Rightarrow> query" where
  "exercise_update ident exercise_name sets reps weight =
     (from_table ''exercises''
        (Update [(''exercise_name'', exercise_name),
                 (''sets'', JNum sets),
                 (''reps'', JNum reps),
                 (''weight'', JNum weight)])
        [(''id'', ident)])
       \<lparr>returning := True, single := True\<rparr>"

text \<open>The update object is built, coercions included, before the query is sent.\<close>

definition patch_exercise :: "runtime \<Rightarrow> user \<Rightarrow> string \<Rightarrow> (string \<times> jsval) list \<Rightarrow> prog" where
  "patch_exercise rt usr ident req_body =
     (case coerced rt (field req_body ''sets'') (field req_body ''reps'')
             (field req_body ''weight'') of
        Inl e \<Rightarrow> Respond (error_json 500 e)
      | Inr (s, r, w) \<Rightarrow>
          Call (exercise_update ident (field req_body ''exercise_name'') s r w)
            (\<lambda>res. or_throw res (Respond (json 200 (JObj [(''exercise'', data res)])))))"

subsection \<open>DELETE /api/exercises/:id\<close>

definition exercise_delete :: "string \<Rightarrow> query" where
  "exercise_delete ident = from_table ''exercises'' Delete [(''id'', ident)]"

definition delete_exercise :: "user \<Rightarrow> string \<Rightarrow> prog" where
  "delete_exercise usr ident =
     Call (exercise_delete ident)
       (\<lambda>res. or_throw res
          (Respond (json 200 (JObj [(''message'', JStr ''Exercise deleted successfully'')]))))"

subsection \<open>The protected routes\<close>

datatype endpoint =
    GetWorkouts
  | GetWorkout string
  | PostWorkout "(string \<times> jsval) list"
  | PatchWorkout string "(string \<times> jsval) list"
  | DeleteWorkout string
  | GetExercises string
  | PostExercise string "(string \<times> jsval) list"
  | PatchExercise string "(string \<times> jsval) list"
  | DeleteExercise string

fun handler :: "runtime \<Rightarrow> user \<Rightarrow> endpoint \<Rightarrow> prog" where
  "handler rt usr GetWorkouts = get_workouts rt usr"
| "handler rt usr (GetWorkout ident) = get_workout usr ident"
| "handler rt usr (PostWorkout b) = post_workout usr b"
| "handler rt usr (PatchWorkout ident b) = patch_workout rt usr ident b"
| "handler rt usr (DeleteWorkout ident) = delete_workout usr ident"
| "handler rt usr (GetExercises workoutId) = get_exercises usr workoutId"
| "handler rt usr (PostExercise workoutId b) = post_exercise rt usr workoutId b"
| "handler rt usr (PatchExercise ident b) = patch_exercise rt usr ident b"
| "handler rt usr (DeleteExercise ident) = delete_exercise usr ident"

text \<open>A request to a protected route: the middleware first, the handler when it calls
  \<open>next()\<close>. The token only configures the client that the handler queries through;
  what the store does with it is the store's business.\<close>

definition protected :: "(string \<Rightarrow> auth_reply) \<Rightarrow> runtime \<Rightarrow> string option \<Rightarrow> endpoint \<Rightarrow> prog" where
  "protected getUser rt authorization ep =
     (case authenticateUser getUser authorization of
        Rejected r \<Rightarrow> Respond r
      | Next usr token \<Rightarrow> handler rt usr ep)"

text \<open>A query is scoped to a user when it filters on \<open>user_id\<close> being that user's id or,
  for an insert, when the row it writes has that \<open>user_id\<close>.\<close>

definition carries_user :: "user \<Rightarrow> query \<Rightarrow> bool" where
  "carries_user usr q =
     (case verb q of
        Insert payload \<Rightarrow> field payload ''user_id'' = JStr (uid usr)
      | _ \<Rightarrow> (''user_id'', uid usr) \<in> set (eqs q))"

section \<open>The store\<close>

text \<open>
  The store is an external service; the handlers rely on the contract of its client
  library, which this section writes down as an in-memory database:
  \<^item> \<open>eq\<close> filters are conjoined, and compare a column with a text value;
  \<^item> \<open>order\<close> clauses sort by the first clause, ties by the next, and so on; date and
    timestamp columns hold ISO-8601 text, which orders as the moments it denotes;
  \<^item> \<open>single()\<close> answers with the row itself when exactly one row results, and with
    \<open>data = null\<close> and an error otherwise;
  \<^item> the embedded resource \<open>exercises(count)\<close> is a one-element list holding the number
    of exercise rows that reference the workout, \<open>exercises(*)\<close> is the list of those rows;
  \<^item> \<open>insert\<close> gives the new row an id and a creation time, \<open>delete\<close> on workouts
    cascades to the exercises that reference a deleted workout;
  \<^item> a payload is sent as JSON: \<open>undefined\<close> fields are left out, \<open>NaN\<close> and the
    infinities are sent as \<open>null\<close>.
  The schema of the deployment (column types, constraints other than the primary key)
  and its row-level policies are not part of the repository; the model has none, and
  ids are plain text.
\<close>

type_synonym row = "(string \<times> jsval) list"

record db =
  workouts :: "row list"
  exercises :: "row list"

definition matches :: "(string \<times> string) list \<Rightarrow> row \<Rightarrow> bool" where
  "matches fs r = list_all (\<lambda>(c, v). field r c = JStr v) fs"

definition text_of :: "jsval \<Rightarrow> string" where
  "text_of v = (case v of JStr s \<Rightarrow> s | _ \<Rightarrow> [])"

fun before :: "(string \<times> bool) list \<Rightarrow> row \<Rightarrow> row \<Rightarrow> bool" where
  "before [] a b = True"
| "before ((c, ascending) # os) a b =
     (let x = text_of (field a c); y = text_of (field b c)
      in if x = y then before os a b else if ascending then x < y else y < x)"

fun insert_by :: "('a \<Rightarrow> 'a \<Rightarrow> bool) \<Rightarrow> 'a \<Rightarrow> 'a list \<Rightarrow> 'a list" where
  "insert_by le x [] = [x]"
| "insert_by le x (y # ys) = (if le x y then x # y # ys else y # insert_by le x ys)"

definition sort_by :: "('a \<Rightarrow> 'a \<Rightarrow> bool) \<Rightarrow> 'a list \<Rightarrow> 'a list" where
  "sort_by le xs = foldr (insert_by le) xs []"

definition wire :: "row \<Rightarrow> row" where
  "wire payload =
     map (\<lambda>(k, v). (k, case v of JNum (Fin q) \<Rightarrow> v | JNum _ \<Rightarrow> JNull | _ \<Rightarrow> v))
       (filter (\<lambda>(k, v). v \<noteq> JUndefined) payload)"

definition references :: "row \<Rightarrow> row \<Rightarrow> bool" where
  "references w e = (field e ''workout_id'' = field w ''id'')"

definition project :: "string \<Rightarrow> db \<Rightarrow> row \<Rightarrow> row" where
  "project columns d r =
     (if columns = ''id'' then [(''id'', field r ''id'')]
      else if columns = ''*,exercises:exercises(count)'' then
        AList.update ''exercises''
          (JArr [JObj [(''count'',
             JNum (Fin (of_nat (length (filter (references r) (exercises d))))))]]) r
      else if columns = ''*,exercises(*)'' then
        AList.update ''exercises'' (JArr (map JObj (filter (references r) (exercises d)))) r
      else r)"

definition answer :: "query \<Rightarrow> row list \<Rightarrow> result" where
  "answer q rows =
     (if single q then
        (case rows of
           [r] \<Rightarrow> \<lparr>data = JObj r, error = None\<rparr>
         | _ \<Rightarrow> \<lparr>data = JNull,
                 error = Some ''JSON object requested, multiple (or no) rows returned''\<rparr>)
      else \<lparr>data = JArr (map JObj rows), error = None\<rparr>)"

definition written :: "query \<Rightarrow> row list \<Rightarrow> result" where
  "written q rows = (if returning q then answer q rows else \<lparr>data = JNull, error = None\<rparr>)"

definition rows_of :: "string \<Rightarrow> db \<Rightarrow> row list" where
  "rows_of t d = (if t = ''workouts'' then workouts d else exercises d)"

definition set_rows :: "string \<Rightarrow> row list \<Rightarrow> db \<Rightarrow> db" where
  "set_rows t rows d = (if t = ''workouts'' then d\<lparr>workouts := rows\<rparr> else d\<lparr>exercises := rows\<rparr>)"

definition apply_update :: "row \<Rightarrow> row \<Rightarrow> row" where
  "apply_update payload r = foldl (\<lambda>acc (k, v). AList.update k v acc) r (wire payload)"

definition cascade :: "string \<Rightarrow> row list \<Rightarrow> db \<Rightarrow> db" where
  "cascade t deleted d =
     (if t = ''workouts''
      then d\<lparr>exercises := filter (\<lambda>e. \<not> list_ex (\<lambda>w. references w e) deleted) (exercises d)\<rparr>
      else d)"

text \<open>\<open>new_id\<close> and \<open>stamp\<close> are the id and the time the store gives to a row it inserts.\<close>

definition store :: "string \<Rightarrow> string \<Rightarrow> query \<Rightarrow> db \<Rightarrow> result \<times> db" where
  "store new_id stamp q d =
     (if table q \<noteq> ''workouts'' \<and> table q \<noteq> ''exercises''
      then (\<lparr>data = JNull, error = Some ''relation does not exist''\<rparr>, d)
      else
        (let rows = rows_of (table q) d in
         case verb q of
           Select columns \<Rightarrow>
             (answer q (map (project columns d)
                          (sort_by (before (orders q)) (filter (matches (eqs q)) rows))), d)
         | Insert payload \<Rightarrow>
             if list_ex (\<lambda>r. field r ''id'' = JStr new_id) rows
             then (\<lparr>data = JNull, error = Some ''duplicate key value''\<rparr>, d)
             else
               (let r = (''id'', JStr new_id) # wire payload @ [(''created_at'', JStr stamp)]
                in (written q [r], set_rows (table q) (rows @ [r]) d))
         | Update payload \<Rightarrow>
             (written q (map (apply_update payload) (filter (matches (eqs q)) rows)),
              set_rows (table q)
                (map (\<lambda>r. if matches (eqs q) r then apply_update payload r else r) rows) d)
         | Delete \<Rightarrow>
             (written q (filter (matches (eqs q)) rows),
              cascade (table q) (filter (matches (eqs q)) rows)
                (set_rows (table q) (filter (\<lambda>r. \<not> matches (eqs q) r) rows) d))))"

section \<open>Properties of the handlers\<close>

subsection \<open>Auxiliary facts\<close>

lemma filter_none:
  "\<not> (\<exists>r \<in> set rows. P r) \<Longrightarrow> filter P rows = []"
  by (induction rows) auto

lemma filter_by_key:
  assumes "distinct (map key rows)" and "r \<in> set rows" and "P r"
    and "\<And>x. P x \<Longrightarrow> key x = k"
  shows "filter P rows = [r]"
  using assms(1,2)
proof (induction rows)
  case Nil
  then show ?case by simp
next
  case (Cons x xs)
  show ?case
  proof (cases "x = r")
    case True
    have "filter P xs = []"
    proof (rule filter_none, clarify)
      fix y assume "y \<in> set xs" "P y"
      then have "key y = key r" using assms(3,4) by simp
      moreover have "key y \<in> key ` set xs" using \<open>y \<in> set xs\<close> by (rule imageI)
      moreover have "key x \<notin> key ` set xs" using Cons.prems(1) by simp
      ultimately show False using True by simp
    qed
    with True assms(3) show ?thesis by simp
  next
    case False
    then have in_xs: "r \<in> set xs" using Cons.prems(2) by simp
    have "\<not> P x"
    proof
      assume "P x"
      then have "key x = key r" using assms(3,4) by simp
      moreover have "key r \<in> key ` set xs" using in_xs by (rule imageI)
      moreover have "key x \<notin> key ` set xs" using Cons.prems(1) by simp
      ultimately show False by simp
    qed
    with Cons in_xs show ?thesis by simp
  qed
qed

lemma matches_id_user:
  "matches [(''id'', w), (''user_id'', u)] r
     \<longleftrightarrow> field r ''id'' = JStr w \<and> field r ''user_id'' = JStr u"
  by (simp add: matches_def)

lemma insert_by_True: "insert_by (\<lambda>a b. True) x xs = x # xs"
  by (cases xs) auto

lemma sort_by_unordered: "sort_by (before []) xs = xs"
  by (induction xs) (simp_all add: sort_by_def insert_by_True)

lemma store_workout_owned:
  "store new_id t (workout_owned usr w) d =
     (case filter (matches [(''id'', w), (''user_id'', uid usr)]) (workouts d) of
        [r] \<Rightarrow> \<lparr>data = JObj (project ''id'' d r), error = None\<rparr>
      | _ \<Rightarrow> \<lparr>data = JNull,
              error = Some ''JSON object requested, multiple (or no) rows returned''\<rparr>, d)"
  by (simp add: store_def workout_owned_def from_table_def rows_of_def sort_by_unordered
      answer_def split: list.splits)


lemma owned_row_unique:
  assumes "distinct (map (\<lambda>r. field r ''id'') rows)"
    and "r \<in> set rows" and "field r ''id'' = JStr w" and "field r ''user_id'' = JStr u"
  shows "filter (matches [(''id'', w), (''user_id'', u)]) rows = [r]"
  by (rule filter_by_key [where key = "\<lambda>r. field r ''id''" and k = "JStr w"])
    (use assms in \<open>simp_all add: matches_id_user\<close>)

lemma no_owned_row:
  assumes "\<not> (\<exists>r \<in> set rows. field r ''id'' = JStr w \<and> field r ''user_id'' = JStr u)"
  shows "filter (matches [(''id'', w), (''user_id'', u)]) rows = []"
  by (rule filter_none) (use assms in \<open>simp add: matches_id_user\<close>)


section \<open>Properties of the auth middleware\<close>










section \<open>Properties of the workout and exercise routes\<close>

text \<open>
  Claim C7. \<open>POST /api/workouts\<close> with a body whose \<open>name\<close> or \<open>workout_date\<close> is missing
  (absent, or falsy as the handler tests it) is answered with 400 and the store is not
  called, whatever the store is. With both present the handler sends one insert that
  carries the caller as \<open>user_id\<close>; when the store reports no error the answer is 201
  with the row the store returned, and the store of this theory appends exactly that row,
  owned by the caller.
\<close>

theorem post_workout_validation:
  "(\<not> truthy (field b ''name'') \<or> \<not> truthy (field b ''workout_date'') \<longrightarrow>
      run exec (handler rt usr (PostWorkout b)) d
        = (error_json 400 ''Name and date are required'', d, []))
   \<and> (truthy (field b ''name'') \<and> truthy (field b ''workout_date'') \<longrightarrow>
        (\<forall>res d'.
           exec (workout_insert usr (field b ''name'') (field b ''workout_date'')
                   (field b ''notes'')) d = (res, d') \<and> error res = None \<longrightarrow>
           run exec (handler rt usr (PostWorkout b)) d
             = (json 201 (JObj [(''workout'', data res)]), d',
                [workout_insert usr (field b ''name'') (field b ''workout_date'')
                   (field b ''notes'')]))
      \<and> (\<not> list_ex (\<lambda>r. field r ''id'' = JStr new_id) (workouts s) \<longrightarrow>
           (let r = (''id'', JStr new_id) #
                    wire [(''user_id'', JStr (uid usr)), (''name'', field b ''name''),
                          (''workout_date'', field b ''workout_date''),
                          (''notes'', or_else (field b ''notes'') JNull)]
                    @ [(''created_at'', JStr t)]
            in run (store new_id t) (handler rt usr (PostWorkout b)) s
                 = (json 201 (JObj [(''workout'', JObj r)]), s\<lparr>workouts := workouts s @ [r]\<rparr>,
                    [workout_insert usr (field b ''name'') (field b ''workout_date'')
                       (field b ''notes'')])
               \<and> field r ''user_id'' = JStr (uid usr))))"
proof (intro conjI impI allI)
  assume "\<not> truthy (field b ''name'') \<or> \<not> truthy (field b ''workout_date'')"
  then show "run exec (handler rt usr (PostWorkout b)) d
               = (error_json 400 ''Name and date are required'', d, [])"
    by (auto simp: post_workout_def Let_def)
next
  fix res d'
  assume "truthy (field b ''name'') \<and> truthy (field b ''workout_date'')"
    and "exec (workout_insert usr (field b ''name'') (field b ''workout_date'')
                 (field b ''notes'')) d = (res, d') \<and> error res = None"
  then show "run exec (handler rt usr (PostWorkout b)) d
             = (json 201 (JObj [(''workout'', data res)]), d',
                [workout_insert usr (field b ''name'') (field b ''workout_date'')
                   (field b ''notes'')])"
    by (simp add: post_workout_def Let_def or_throw_def)
next
  assume "truthy (field b ''name'') \<and> truthy (field b ''workout_date'')"
    and "\<not> list_ex (\<lambda>r. field r ''id'' = JStr new_id) (workouts s)"
  then show "let r = (''id'', JStr new_id) #
                    wire [(''user_id'', JStr (uid usr)), (''name'', field b ''name''),
                          (''workout_date'', field b ''workout_date''),
                          (''notes'', or_else (field b ''notes'') JNull)]
                    @ [(''created_at'', JStr t)]
            in run (store new_id t) (handler rt usr (PostWorkout b)) s
                 = (json 201 (JObj [(''workout'', JObj r)]), s\<lparr>workouts := workouts s @ [r]\<rparr>,
                    [workout_insert usr (field b ''name'') (field b ''workout_date'')
                       (field b ''notes'')])
               \<and> field r ''user_id'' = JStr (uid usr)"
    by (simp add: post_workout_def Let_def from_table_def workout_insert_def or_throw_def
        store_def rows_of_def set_rows_def written_def answer_def wire_def field_def)
qed

text \<open>A body without \<open>workout_date\<close>, against a store that would fail loudly if it were
  called; and a complete body from user \<open>A\<close>, against the empty store.\<close>

theorem post_workout_validation_witness:
  "run (\<lambda>q d. (\<lparr>data = JNull, error = Some ''called''\<rparr>, d)) (handler idle (User ''A'')
       (PostWorkout [(''name'', JStr ''Leg Day'')])) \<lparr>workouts = [], exercises = []\<rparr>
     = (error_json 400 ''Name and date are required'', \<lparr>workouts = [], exercises = []\<rparr>, [])
   \<and> fst (run (store ''w1'' ''t1'') (handler idle (User ''A'')
       (PostWorkout [(''name'', JStr ''Leg Day''), (''workout_date'', JStr ''2024-01-01'')]))
       \<lparr>workouts = [], exercises = []\<rparr>)
     = json 201 (JObj [(''workout'',
         JObj [(''id'', JStr ''w1''), (''user_id'', JStr ''A''), (''name'', JStr ''Leg Day''),
               (''workout_date'', JStr ''2024-01-01''), (''notes'', JNull),
               (''created_at'', JStr ''t1'')])])"
proof -
  have 1: "run (\<lambda>q d. (\<lparr>data = JNull, error = Some ''called''\<rparr>, d)) (handler idle (User ''A'')
       (PostWorkout [(''name'', JStr ''Leg Day'')])) \<lparr>workouts = [], exercises = []\<rparr>
     = (error_json 400 ''Name and date are required'', \<lparr>workouts = [], exercises = []\<rparr>, [])"
    using post_workout_validation [where b = "[(''name'', JStr ''Leg Day'')]"
        and exec = "\<lambda>q d. (\<lparr>data = JNull, error = Some ''called''\<rparr>, d)"
        and rt = idle and usr = "User ''A''" and d = "\<lparr>workouts = [], exercises = []\<rparr>"]
    by (simp add: field_def)
  have 2: "fst (run (store ''w1'' ''t1'') (handler idle (User ''A'')
       (PostWorkout [(''name'', JStr ''Leg Day''), (''workout_date'', JStr ''2024-01-01'')]))
       \<lparr>workouts = [], exercises = []\<rparr>)
     = json 201 (JObj [(''workout'',
         JObj [(''id'', JStr ''w1''), (''user_id'', JStr ''A''), (''name'', JStr ''Leg Day''),
               (''workout_date'', JStr ''2024-01-01''), (''notes'', JNull),
               (''created_at'', JStr ''t1'')])])"
    using post_workout_validation [where
        b = "[(''name'', JStr ''Leg Day''), (''workout_date'', JStr ''2024-01-01'')]"
        and rt = idle and usr = "User ''A''" and new_id = "''w1''" and t = "''t1''"
        and s = "\<lparr>workouts = [], exercises = []\<rparr>"
        and exec = "store ''w1'' ''t1''" and d = "\<lparr>workouts = [], exercises = []\<rparr>"]
    by (simp add: field_def wire_def or_else_def Let_def)
  from 1 2 show ?thesis by (rule conjI)
qed



subsection \<open>Sorting and listing\<close>

lemma field_update:
  "field (AList.update k v al) k' = (if k' = k then v else field al k')"
  by (simp add: field_def update_conv')

lemma mset_insert_by: "mset (insert_by le x xs) = add_mset x (mset xs)"
  by (induction xs) auto

lemma mset_sort_by: "mset (sort_by le xs) = mset xs"
  by (induction xs) (simp_all add: sort_by_def mset_insert_by)

lemma set_insert_by: "set (insert_by le x xs) = insert x (set xs)"
  by (induction xs) auto

lemma sorted_insert_by:
  assumes total: "\<And>a b. le a b \<or> le b a" and trans: "\<And>a b c. le a b \<Longrightarrow> le b c \<Longrightarrow> le a c"
  shows "sorted_wrt le xs \<Longrightarrow> sorted_wrt le (insert_by le x xs)"
proof (induction xs)
  case Nil
  then show ?case by simp
next
  case (Cons y ys)
  show ?case
  proof (cases "le x y")
    case True
    then have "\<forall>z \<in> set ys. le x z"
      using Cons.prems trans by auto
    with True Cons.prems show ?thesis by simp
  next
    case False
    then have "le y x" using total by blast
    with False Cons show ?thesis by (auto simp: set_insert_by)
  qed
qed

lemma sorted_sort_by:
  assumes "\<And>a b. le a b \<or> le b a" and "\<And>a b c. le a b \<Longrightarrow> le b c \<Longrightarrow> le a c"
  shows "sorted_wrt le (sort_by le xs)"
proof (induction xs)
  case Nil
  then show ?case by (simp add: sort_by_def)
next
  case (Cons x xs)
  have "sorted_wrt le (insert_by le x (sort_by le xs))"
    using assms Cons by (intro sorted_insert_by) blast+
  then show ?case by (simp add: sort_by_def)
qed

lemma before_total: "before os a b \<or> before os b a"
  by (induction os a b rule: before.induct) (auto simp: Let_def)

lemma before_trans: "before os a b \<Longrightarrow> before os b c \<Longrightarrow> before os a c"
  by (induction os a c arbitrary: b rule: before.induct)
     (auto simp: Let_def split: if_splits)


lemma count_or_zero:
  "or_else (JNum (Fin (of_nat n))) (JNum (Fin 0)) = JNum (Fin (of_nat n))"
  by (cases n) (simp_all add: or_else_def)

lemma with_exercise_count_embedded:
  "with_exercise_count rt
     (JObj (AList.update ''exercises'' (JArr [JObj [(''count'', JNum (Fin (of_nat n)))]]) r)) =
   Inr (JObj (AList.update ''exercise_count'' (JNum (Fin (of_nat n)))
          (AList.update ''exercises'' (JArr [JObj [(''count'', JNum (Fin (of_nat n)))]]) r)))"
proof -
  have c: "count_of (JObj [(''count'', JNum (Fin (of_nat n)))]) = JNum (Fin (of_nat n))"
    by (simp add: count_of_def field_def)
  show ?thesis
    by (simp add: with_exercise_count_def field_update element0_def c count_or_zero)
qed

lemma project_count:
  "project ''*,exercises:exercises(count)'' d r =
     AList.update ''exercises''
       (JArr [JObj [(''count'',
          JNum (Fin (of_nat (length (filter (references r) (exercises d))))))]]) r"
  by (simp add: project_def)

lemma map_rows_map:
  assumes "\<And>x. f (h x) = Inr (g x)"
  shows "map_rows f (map h xs) = Inr (map g xs)"
  using assms by (induction xs) simp_all

lemma store_workouts_list:
  "store new_id t (workouts_list usr) d =
     (\<lparr>data = JArr (map JObj (map (project ''*,exercises:exercises(count)'' d)
                (sort_by (before [(''workout_date'', False), (''created_at'', False)])
                   (filter (matches [(''user_id'', uid usr)]) (workouts d))))),
       error = None\<rparr>, d)"
  by (simp add: store_def workouts_list_def from_table_def rows_of_def answer_def)

lemma store_workout_delete:
  "store new_id t (workout_delete usr ident) d =
     (\<lparr>data = JNull, error = None\<rparr>,
      d\<lparr>workouts := filter (\<lambda>r. \<not> matches [(''id'', ident), (''user_id'', uid usr)] r) (workouts d),
        exercises := filter (\<lambda>e. \<not> list_ex (\<lambda>w. references w e)
                      (filter (matches [(''id'', ident), (''user_id'', uid usr)]) (workouts d)))
                    (exercises d)\<rparr>)"
  by (simp add: store_def workout_delete_def from_table_def rows_of_def set_rows_def
      written_def cascade_def Let_def)

text \<open>
  Claim C3. \<open>GET /api/workouts\<close> answers 200 with a list that is a rearrangement of
  exactly the workouts whose \<open>user_id\<close> is the caller's, ordered by \<open>workout_date\<close>
  descending and, among equal dates, by \<open>created_at\<close> descending. Every listed workout
  carries \<open>exercise_count\<close>, the number of exercise rows whose \<open>workout_id\<close> is its id
  (0 when there is none), and keeps its own columns. The one query sent is the select
  filtered by the caller's id; the store is left as it was.
\<close>

theorem get_workouts_listing:
  "(let rows = sort_by (before [(''workout_date'', False), (''created_at'', False)])
                 (filter (matches [(''user_id'', uid usr)]) (workouts d));
        date = (\<lambda>r. text_of (field r ''workout_date''));
        created = (\<lambda>r. text_of (field r ''created_at''));
        counted = (\<lambda>r. JNum (Fin (of_nat (length
                     (filter (\<lambda>e. field e ''workout_id'' = field r ''id'') (exercises d))))));
        shown = (\<lambda>r. AList.update ''exercise_count'' (counted r)
                   (AList.update ''exercises'' (JArr [JObj [(''count'', counted r)]]) r))
    in run (store new_id t) (handler rt usr GetWorkouts) d
         = (json 200 (JObj [(''workouts'', JArr (map (\<lambda>r. JObj (shown r)) rows))]), d,
            [workouts_list usr])
     \<and> mset rows = mset (filter (\<lambda>r. field r ''user_id'' = JStr (uid usr)) (workouts d))
     \<and> sorted_wrt (\<lambda>a b. date b < date a \<or> (date b = date a \<and> created b \<le> created a)) rows
     \<and> (\<forall>r. field (shown r) ''exercise_count'' = counted r
            \<and> (\<forall>k. k \<noteq> ''exercise_count'' \<and> k \<noteq> ''exercises'' \<longrightarrow> field (shown r) k = field r k)))"
proof -
  define ords where "ords = [(''workout_date'', False), (''created_at'', False)]"
  define rows where "rows = sort_by (before ords) (filter (matches [(''user_id'', uid usr)]) (workouts d))"
  have run: "run (store new_id t) (handler rt usr GetWorkouts) d
         = (json 200 (JObj [(''workouts'', JArr (map (\<lambda>r. JObj
              (AList.update ''exercise_count''
                 (JNum (Fin (of_nat (length (filter (references r) (exercises d))))))
                 (AList.update ''exercises''
                    (JArr [JObj [(''count'',
                       JNum (Fin (of_nat (length (filter (references r) (exercises d))))))]]) r)))
              rows))]), d, [workouts_list usr])"
    unfolding rows_def ords_def
    by (simp add: get_workouts_def store_workouts_list or_throw_def o_def project_count
        map_rows_map [where f = "with_exercise_count rt", OF with_exercise_count_embedded])
  have owned: "matches [(''user_id'', uid usr)] = (\<lambda>r. field r ''user_id'' = JStr (uid usr))"
    by (rule ext) (simp add: matches_def)
  have perm: "mset rows = mset (filter (\<lambda>r. field r ''user_id'' = JStr (uid usr)) (workouts d))"
    by (simp add: rows_def mset_sort_by owned)
  have s0: "sorted_wrt (before ords) rows"
    unfolding rows_def by (rule sorted_sort_by) (use before_total before_trans in blast)+
  have eqv: "before ords a b \<longleftrightarrow>
      text_of (field b ''workout_date'') < text_of (field a ''workout_date'')
      \<or> (text_of (field b ''workout_date'') = text_of (field a ''workout_date'')
         \<and> text_of (field b ''created_at'') \<le> text_of (field a ''created_at''))" for a b
    by (auto simp: ords_def Let_def)
  have sorted: "sorted_wrt (\<lambda>a b.
      text_of (field b ''workout_date'') < text_of (field a ''workout_date'')
      \<or> (text_of (field b ''workout_date'') = text_of (field a ''workout_date'')
         \<and> text_of (field b ''created_at'') \<le> text_of (field a ''created_at''))) rows"
    using s0 by (rule sorted_wrt_mono_rel [rotated]) (simp add: eqv)
  have ref: "references r = (\<lambda>e. field e ''workout_id'' = field r ''id'')" for r
    by (rule ext) (simp add: references_def)
  show ?thesis
    unfolding Let_def
    using run perm sorted
    by (simp add: rows_def ords_def field_update ref)
qed

text \<open>User \<open>A\<close> has three workouts, two of them on the same day, with 2, 1 and 0
  exercises; user \<open>B\<close> has one. The list for \<open>A\<close> is \<open>w2\<close>, \<open>w4\<close>, \<open>w1\<close>.\<close>

theorem get_workouts_listing_witness:
  "fst (run (store ''n'' ''t'') (handler idle (User ''A'') GetWorkouts)
     \<lparr>workouts =
        [[(''id'', JStr ''w1''), (''user_id'', JStr ''A''), (''workout_date'', JStr ''2024-01-01''),
          (''created_at'', JStr ''2024-01-01T08:00'')],
         [(''id'', JStr ''w2''), (''user_id'', JStr ''A''), (''workout_date'', JStr ''2024-01-02''),
          (''created_at'', JStr ''2024-01-02T08:00'')],
         [(''id'', JStr ''w3''), (''user_id'', JStr ''B''), (''workout_date'', JStr ''2024-01-03''),
          (''created_at'', JStr ''2024-01-03T08:00'')],
         [(''id'', JStr ''w4''), (''user_id'', JStr ''A''), (''workout_date'', JStr ''2024-01-01''),
          (''created_at'', JStr ''2024-01-01T09:00'')]],
       exercises =
        [[(''id'', JStr ''e1''), (''workout_id'', JStr ''w1''), (''user_id'', JStr ''A'')],
         [(''id'', JStr ''e2''), (''workout_id'', JStr ''w1''), (''user_id'', JStr ''A'')],
         [(''id'', JStr ''e3''), (''workout_id'', JStr ''w2''), (''user_id'', JStr ''A'')],
         [(''id'', JStr ''e4''), (''workout_id'', JStr ''w3''), (''user_id'', JStr ''B'')]]\<rparr>)
   = json 200 (JObj [(''workouts'', JArr
       [JObj [(''id'', JStr ''w2''), (''user_id'', JStr ''A''), (''workout_date'', JStr ''2024-01-02''),
              (''created_at'', JStr ''2024-01-02T08:00''),
              (''exercises'', JArr [JObj [(''count'', JNum (Fin 1))]]),
              (''exercise_count'', JNum (Fin 1))],
        JObj [(''id'', JStr ''w4''), (''user_id'', JStr ''A''), (''workout_date'', JStr ''2024-01-01''),
              (''created_at'', JStr ''2024-01-01T09:00''),
              (''exercises'', JArr [JObj [(''count'', JNum (Fin 0))]]),
              (''exercise_count'', JNum (Fin 0))],
        JObj [(''id'', JStr ''w1''), (''user_id'', JStr ''A''), (''workout_date'', JStr ''2024-01-01''),
              (''created_at'', JStr ''2024-01-01T08:00''),
              (''exercises'', JArr [JObj [(''count'', JNum (Fin 2))]]),
              (''exercise_count'', JNum (Fin 2))]])])"
proof -
  define w1 where "w1 = [(''id'', JStr ''w1''), (''user_id'', JStr ''A''),
    (''workout_date'', JStr ''2024-01-01''), (''created_at'', JStr ''2024-01-01T08:00'')]"
  define w2 where "w2 = [(''id'', JStr ''w2''), (''user_id'', JStr ''A''),
    (''workout_date'', JStr ''2024-01-02''), (''created_at'', JStr ''2024-01-02T08:00'')]"
  define w3 where "w3 = [(''id'', JStr ''w3''), (''user_id'', JStr ''B''),
    (''workout_date'', JStr ''2024-01-03''), (''created_at'', JStr ''2024-01-03T08:00'')]"
  define w4 where "w4 = [(''id'', JStr ''w4''), (''user_id'', JStr ''A''),
    (''workout_date'', JStr ''2024-01-01''), (''created_at'', JStr ''2024-01-01T09:00'')]"
  define es where "es = [[(''id'', JStr ''e1''), (''workout_id'', JStr ''w1''), (''user_id'', JStr ''A'')],
         [(''id'', JStr ''e2''), (''workout_id'', JStr ''w1''), (''user_id'', JStr ''A'')],
         [(''id'', JStr ''e3''), (''workout_id'', JStr ''w2''), (''user_id'', JStr ''A'')],
         [(''id'', JStr ''e4''), (''workout_id'', JStr ''w3''), (''user_id'', JStr ''B'')]]"
  have owned: "filter (matches [(''user_id'', ''A'')]) [w1, w2, w3, w4] = [w1, w2, w4]"
    by (simp add: w1_def w2_def w3_def w4_def matches_def field_def)
  have sorted: "sort_by (before [(''workout_date'', False), (''created_at'', False)]) [w1, w2, w4]
                  = [w2, w4, w1]"
    by (simp add: w1_def w2_def w4_def sort_by_def field_def text_of_def Let_def less_char_def)
  have rows: "sort_by (before [(''workout_date'', False), (''created_at'', False)])
                (filter (matches [(''user_id'', uid (User ''A''))])
                   (workouts \<lparr>workouts = [w1, w2, w3, w4], exercises = es\<rparr>)) = [w2, w4, w1]"
    by (simp only: db.select_convs user.sel owned sorted)
  note listing = get_workouts_listing [where usr = "User ''A''" and new_id = "''n''"
      and t = "''t''" and rt = idle
      and d = "\<lparr>workouts = [w1, w2, w3, w4], exercises = es\<rparr>",
      unfolded Let_def rows, THEN conjunct1]
  show ?thesis
    using listing by (simp add: w1_def w2_def w3_def w4_def es_def field_def)
qed



lemma delete_workout_run:
  "run (store new_id t) (delete_workout usr ident) d =
     (json 200 (JObj [(''message'', JStr ''Workout deleted successfully'')]),
      d\<lparr>workouts := filter (\<lambda>r. \<not> matches [(''id'', ident), (''user_id'', uid usr)] r) (workouts d),
        exercises := filter (\<lambda>e. \<not> list_ex (\<lambda>w. references w e)
                      (filter (matches [(''id'', ident), (''user_id'', uid usr)]) (workouts d)))
                    (exercises d)\<rparr>,
      [workout_delete usr ident])"
  by (simp add: delete_workout_def store_workout_delete or_throw_def)

lemma delete_workout_noop:
  assumes "\<not> (\<exists>r \<in> set (workouts d). field r ''id'' = JStr ident \<and> field r ''user_id'' = JStr (uid usr))"
  shows "run (store new_id t) (delete_workout usr ident) d =
     (json 200 (JObj [(''message'', JStr ''Workout deleted successfully'')]), d,
      [workout_delete usr ident])"
proof -
  have none: "filter (matches [(''id'', ident), (''user_id'', uid usr)]) (workouts d) = []"
    using assms by (rule no_owned_row)
  have all: "filter (\<lambda>r. \<not> matches [(''id'', ident), (''user_id'', uid usr)] r) (workouts d)
               = workouts d"
    using assms by (simp add: filter_id_conv matches_id_user)
  show ?thesis
    by (simp add: delete_workout_run none all)
qed

text \<open>
  Claim C8. \<open>DELETE /api/workouts/:id\<close> is idempotent at the interface. For every caller,
  id and state of the store the answer is the same 200 success message, whether or not a
  workout with that id owned by the caller exists; the status is never 404. When none
  exists the store is unchanged, and a second delete of the same id leaves the store as
  the first delete left it and is answered alike. Against any store, an answer without
  error is turned into the 200 message.
\<close>

theorem delete_workout_idempotent:
  "fst (run (store new_id t) (handler rt usr (DeleteWorkout ident)) d)
      = json 200 (JObj [(''message'', JStr ''Workout deleted successfully'')])
   \<and> (\<not> (\<exists>r \<in> set (workouts d). field r ''id'' = JStr ident \<and> field r ''user_id'' = JStr (uid usr))
        \<longrightarrow> fst (snd (run (store new_id t) (handler rt usr (DeleteWorkout ident)) d)) = d)
   \<and> (let d1 = fst (snd (run (store new_id t) (handler rt usr (DeleteWorkout ident)) d))
      in run (store new_id' t') (handler rt' usr (DeleteWorkout ident)) d1
           = (json 200 (JObj [(''message'', JStr ''Workout deleted successfully'')]), d1,
              [workout_delete usr ident]))
   \<and> (\<forall>res d'. exec (workout_delete usr ident) d = (res, d') \<and> error res = None \<longrightarrow>
         fst (run exec (handler rt usr (DeleteWorkout ident)) d)
           = json 200 (JObj [(''message'', JStr ''Workout deleted successfully'')]))"
proof (intro conjI impI allI)
  show "fst (run (store new_id t) (handler rt usr (DeleteWorkout ident)) d)
      = json 200 (JObj [(''message'', JStr ''Workout deleted successfully'')])"
    by (simp add: delete_workout_run)
next
  assume "\<not> (\<exists>r \<in> set (workouts d). field r ''id'' = JStr ident \<and> field r ''user_id'' = JStr (uid usr))"
  then show "fst (snd (run (store new_id t) (handler rt usr (DeleteWorkout ident)) d)) = d"
    by (simp add: delete_workout_noop)
next
  define d1 where "d1 = fst (snd (run (store new_id t) (handler rt usr (DeleteWorkout ident)) d))"
  have "workouts d1
          = filter (\<lambda>r. \<not> matches [(''id'', ident), (''user_id'', uid usr)] r) (workouts d)"
    by (simp add: d1_def delete_workout_run)
  then have "\<not> (\<exists>r \<in> set (workouts d1).
                 field r ''id'' = JStr ident \<and> field r ''user_id'' = JStr (uid usr))"
    by (simp add: matches_id_user)
  then have "run (store new_id' t') (handler rt' usr (DeleteWorkout ident)) d1
           = (json 200 (JObj [(''message'', JStr ''Workout deleted successfully'')]), d1,
              [workout_delete usr ident])"
    using delete_workout_noop [of d1 ident usr new_id' t'] by simp
  then show "let d1 = fst (snd (run (store new_id t) (handler rt usr (DeleteWorkout ident)) d))
      in run (store new_id' t') (handler rt' usr (DeleteWorkout ident)) d1
           = (json 200 (JObj [(''message'', JStr ''Workout deleted successfully'')]), d1,
              [workout_delete usr ident])"
    by (simp add: d1_def)
next
  fix res d'
  assume "exec (workout_delete usr ident) d = (res, d') \<and> error res = None"
  then show "fst (run exec (handler rt usr (DeleteWorkout ident)) d)
           = json 200 (JObj [(''message'', JStr ''Workout deleted successfully'')])"
    by (simp add: delete_workout_def or_throw_def)
qed

text \<open>\<open>A\<close> deletes the workout \<open>w1\<close> with its exercise, and deletes it again; \<open>B\<close> tries to
  delete it, and an id that was never there: every answer is the 200 message, and only
  the first request changes the store.\<close>

theorem delete_workout_idempotent_witness:
  "(let d = \<lparr>workouts = [[(''id'', JStr ''w1''), (''user_id'', JStr ''A'')]],
              exercises = [[(''id'', JStr ''e1''), (''workout_id'', JStr ''w1'')]]\<rparr>;
        gone = \<lparr>workouts = [], exercises = []\<rparr>;
        ok = json 200 (JObj [(''message'', JStr ''Workout deleted successfully'')])
    in run (store ''n'' ''t'') (handler idle (User ''A'') (DeleteWorkout ''w1'')) d
         = (ok, gone, [workout_delete (User ''A'') ''w1''])
     \<and> run (store ''n'' ''t'') (handler idle (User ''A'') (DeleteWorkout ''w1'')) gone
         = (ok, gone, [workout_delete (User ''A'') ''w1''])
     \<and> fst (run (store ''n'' ''t'') (handler idle (User ''B'') (DeleteWorkout ''w1'')) d) = ok
     \<and> fst (snd (run (store ''n'' ''t'') (handler idle (User ''B'') (DeleteWorkout ''w1'')) d)) = d
     \<and> fst (snd (run (store ''n'' ''t'') (handler idle (User ''A'') (DeleteWorkout ''w9'')) d)) = d)"
proof -
  define d where "d = \<lparr>workouts = [[(''id'', JStr ''w1''), (''user_id'', JStr ''A'')]],
              exercises = [[(''id'', JStr ''e1''), (''workout_id'', JStr ''w1'')]]\<rparr>"
  define gone where "gone = \<lparr>workouts = [], exercises = []\<rparr>"
  define ok where "ok = json 200 (JObj [(''message'', JStr ''Workout deleted successfully'')])"
  note i = delete_workout_idempotent [where new_id = "''n''" and t = "''t''" and rt = idle
      and new_id' = "''n''" and t' = "''t''" and rt' = idle and d = d
      and exec = "store ''n'' ''t''", folded ok_def]
  have first: "run (store ''n'' ''t'') (handler idle (User ''A'') (DeleteWorkout ''w1'')) d
         = (ok, gone, [workout_delete (User ''A'') ''w1''])"
    by (simp add: d_def gone_def ok_def delete_workout_run matches_def references_def field_def)
  have 1: "run (store ''n'' ''t'') (handler idle (User ''A'') (DeleteWorkout ''w1'')) gone
         = (ok, gone, [workout_delete (User ''A'') ''w1''])"
    using i [where usr = "User ''A''" and ident = "''w1''"] first by (simp add: Let_def)
  have 2: "fst (run (store ''n'' ''t'') (handler idle (User ''B'') (DeleteWorkout ''w1'')) d) = ok"
    using i [where usr = "User ''B''" and ident = "''w1''"] by simp
  have 3: "fst (snd (run (store ''n'' ''t'') (handler idle (User ''B'') (DeleteWorkout ''w1'')) d)) = d"
    using i [where usr = "User ''B''" and ident = "''w1''"] by (simp add: d_def field_def)
  have 4: "fst (snd (run (store ''n'' ''t'') (handler idle (User ''A'') (DeleteWorkout ''w9'')) d)) = d"
    using i [where usr = "User ''A''" and ident = "''w9''"] by (simp add: d_def field_def)
  show ?thesis
    unfolding Let_def d_def [symmetric] gone_def [symmetric] ok_def [symmetric]
    using first 1 2 3 4 by simp
qed



subsection \<open>Reading one workout\<close>

lemma get_workout_answers:
  assumes "exec (workout_by_id usr ident) d = (res, d')"
  shows "fst (run exec (get_workout usr ident) d) =
     (case error res of
        Some msg \<Rightarrow> error_json 500 msg
      | None \<Rightarrow> if truthy (data res) then json 200 (JObj [(''workout'', data res)])
                else error_json 404 ''Workout not found'')"
  using assms by (simp add: get_workout_def or_throw_def split: option.splits)

lemma store_workout_by_id:
  "store new_id t (workout_by_id usr ident) d =
     (case filter (matches [(''id'', ident), (''user_id'', uid usr)]) (workouts d) of
        [r] \<Rightarrow> \<lparr>data = JObj (AList.update ''exercises''
                          (JArr (map JObj (filter (references r) (exercises d)))) r),
                error = None\<rparr>
      | _ \<Rightarrow> \<lparr>data = JNull,
              error = Some ''JSON object requested, multiple (or no) rows returned''\<rparr>, d)"
  by (simp add: store_def workout_by_id_def from_table_def rows_of_def sort_by_unordered
      answer_def project_def split: list.splits)

lemma get_workout_found:
  assumes "distinct (map (\<lambda>r. field r ''id'') (workouts d))"
    and "r \<in> set (workouts d)" and "field r ''id'' = JStr ident"
    and "field r ''user_id'' = JStr (uid usr)"
  shows "fst (run (store new_id t) (get_workout usr ident) d) =
     json 200 (JObj [(''workout'',
       JObj (AList.update ''exercises''
               (JArr (map JObj (filter (references r) (exercises d)))) r))])"
proof -
  have "filter (matches [(''id'', ident), (''user_id'', uid usr)]) (workouts d) = [r]"
    using assms by (rule owned_row_unique)
  then show ?thesis
    by (simp add: get_workout_def store_workout_by_id or_throw_def)
qed

lemma get_workout_missing:
  assumes "\<not> (\<exists>r \<in> set (workouts d). field r ''id'' = JStr ident \<and> field r ''user_id'' = JStr (uid usr))"
  shows "fst (run (store new_id t) (get_workout usr ident) d) =
     error_json 500 ''JSON object requested, multiple (or no) rows returned''"
proof -
  have "filter (matches [(''id'', ident), (''user_id'', uid usr)]) (workouts d) = []"
    using assms by (rule no_owned_row)
  then show ?thesis
    by (simp add: get_workout_def store_workout_by_id or_throw_def)
qed

text \<open>
  Claim C6. \<open>GET /api/workouts/:id\<close> for an id under which the caller owns no workout.
  The query ends in \<open>single()\<close>, which answers no row with an error; the handler throws
  that error before it looks at \<open>data\<close>, so the answer is 500 with the store's message
  and the 404 branch is not reached. Here \<open>A\<close> owns \<open>w1\<close> and asks for \<open>w9\<close>, and \<open>B\<close> asks
  for \<open>w1\<close>.
\<close>

theorem get_workout_missing_is_500:
  "fst (run (store ''n'' ''t'') (handler idle (User ''A'') (GetWorkout ''w9''))
          \<lparr>workouts = [[(''id'', JStr ''w1''), (''user_id'', JStr ''A'')]], exercises = []\<rparr>)
     = error_json 500 ''JSON object requested, multiple (or no) rows returned''
   \<and> fst (run (store ''n'' ''t'') (handler idle (User ''B'') (GetWorkout ''w1''))
          \<lparr>workouts = [[(''id'', JStr ''w1''), (''user_id'', JStr ''A'')]], exercises = []\<rparr>)
     = error_json 500 ''JSON object requested, multiple (or no) rows returned''
   \<and> status (error_json 500 ''JSON object requested, multiple (or no) rows returned'') \<noteq> 404"
  by (simp add: get_workout_missing field_def error_json_def json_def)



subsection \<open>Adding and changing an exercise\<close>

lemma coerced_returns:
  "coerced rt a b c = Inr (s, r, w)
     \<longleftrightarrow> parseInt rt a = Inr s \<and> parseInt rt b = Inr r \<and> parseFloat rt c = Inr w"
  by (auto simp: coerced_def split: sum.splits)

lemma coerced_cases:
  "(\<exists>e. coerced rt a b c = Inl e) \<or> (\<exists>s r w. coerced rt a b c = Inr (s, r, w))"
  by (cases "coerced rt a b c") auto

lemma store_exercise_insert:
  assumes "\<not> list_ex (\<lambda>r. field r ''id'' = JStr new_id) (exercises d)"
  shows "store new_id t (exercise_insert usr w n s r wt) d =
     (let row = (''id'', JStr new_id) #
                wire [(''workout_id'', JStr w), (''user_id'', JStr (uid usr)),
                      (''exercise_name'', n), (''sets'', JNum s),
                      (''reps'', JNum r), (''weight'', JNum wt)]
                @ [(''created_at'', JStr t)]
      in (\<lparr>data = JObj row, error = None\<rparr>, d\<lparr>exercises := exercises d @ [row]\<rparr>))"
  using assms
  by (simp add: store_def exercise_insert_def from_table_def rows_of_def set_rows_def
      written_def answer_def Let_def)

lemma post_exercise_not_found:
  assumes "truthy (field b ''exercise_name'')" and "truthy (field b ''sets'')"
    and "truthy (field b ''reps'')" and "field b ''weight'' \<noteq> JUndefined"
    and "filter (matches [(''id'', w), (''user_id'', uid usr)]) (workouts d) = []"
  shows "run (store new_id t) (post_exercise rt usr w b) d
           = (error_json 404 ''Workout not found'', d, [workout_owned usr w])"
  using assms
  by (simp add: post_exercise_def Let_def store_workout_owned)

lemma post_exercise_throws:
  assumes "truthy (field b ''exercise_name'')" and "truthy (field b ''sets'')"
    and "truthy (field b ''reps'')" and "field b ''weight'' \<noteq> JUndefined"
    and "filter (matches [(''id'', w), (''user_id'', uid usr)]) (workouts d) = [wrow]"
    and "coerced rt (field b ''sets'') (field b ''reps'') (field b ''weight'') = Inl e"
  shows "run (store new_id t) (post_exercise rt usr w b) d
           = (error_json 500 e, d, [workout_owned usr w])"
  using assms
  by (simp add: post_exercise_def Let_def store_workout_owned)

lemma post_exercise_created:
  assumes "truthy (field b ''exercise_name'')" and "truthy (field b ''sets'')"
    and "truthy (field b ''reps'')" and "field b ''weight'' \<noteq> JUndefined"
    and "filter (matches [(''id'', w), (''user_id'', uid usr)]) (workouts d) = [wrow]"
    and "\<not> list_ex (\<lambda>r. field r ''id'' = JStr new_id) (exercises d)"
    and "coerced rt (field b ''sets'') (field b ''reps'') (field b ''weight'') = Inr (s, r, wt)"
  shows "run (store new_id t) (post_exercise rt usr w b) d =
        (let row = (''id'', JStr new_id) #
                   wire [(''workout_id'', JStr w), (''user_id'', JStr (uid usr)),
                         (''exercise_name'', field b ''exercise_name''),
                         (''sets'', JNum s), (''reps'', JNum r), (''weight'', JNum wt)]
                   @ [(''created_at'', JStr t)]
         in (json 201 (JObj [(''exercise'', JObj row)]), d\<lparr>exercises := exercises d @ [row]\<rparr>,
             [workout_owned usr w,
              exercise_insert usr w (field b ''exercise_name'') s r wt]))"
  using assms(1-5,7)
  by (simp add: post_exercise_def Let_def store_workout_owned
      store_exercise_insert [OF assms(6)] or_throw_def)

text \<open>
  Claim C4, as the code has it. \<open>POST /api/workouts/:workoutId/exercises\<close> with a body that
  passes the field validation. When the store holds no workout with that id owned by the
  caller, the answer is 404, the ownership check is the only query sent and the store is
  unchanged. When it holds one (ids being a key of the table), the three coercions run
  in the order \<open>parseInt(sets)\<close>, \<open>parseInt(reps)\<close>, \<open>parseFloat(weight)\<close>. If one of them
  throws, the answer is 500 with the error's message and nothing is inserted. If all
  return, the handler inserts an exercise with the caller as owner and the returned numbers
  as \<open>sets\<close>, \<open>reps\<close> and \<open>weight\<close>, the store appends that row (a number that is no
  finite number arrives as \<open>null\<close>), and the answer is 201 with the row.
\<close>

theorem post_exercise_ownership:
  assumes "truthy (field b ''exercise_name'')" and "truthy (field b ''sets'')"
    and "truthy (field b ''reps'')" and "field b ''weight'' \<noteq> JUndefined"
  shows
  "(\<not> (\<exists>r \<in> set (workouts d). field r ''id'' = JStr w \<and> field r ''user_id'' = JStr (uid usr)) \<longrightarrow>
      run (store new_id t) (handler rt usr (PostExercise w b)) d
        = (error_json 404 ''Workout not found'', d, [workout_owned usr w]))
   \<and> (distinct (map (\<lambda>r. field r ''id'') (workouts d)) \<and> (\<exists>r \<in> set (workouts d). field r ''id'' = JStr w \<and> field r ''user_id'' = JStr (uid usr)) \<longrightarrow>
        (coerced rt (field b ''sets'') (field b ''reps'') (field b ''weight'') = Inl e \<longrightarrow>
           run (store new_id t) (handler rt usr (PostExercise w b)) d
             = (error_json 500 e, d, [workout_owned usr w]))
      \<and> (parseInt rt (field b ''sets'') = Inr s \<and> parseInt rt (field b ''reps'') = Inr r
          \<and> parseFloat rt (field b ''weight'') = Inr wt
          \<and> \<not> list_ex (\<lambda>r. field r ''id'' = JStr new_id) (exercises d) \<longrightarrow>
           run (store new_id t) (handler rt usr (PostExercise w b)) d =
        (let row = (''id'', JStr new_id) #
                   wire [(''workout_id'', JStr w), (''user_id'', JStr (uid usr)),
                         (''exercise_name'', field b ''exercise_name''),
                         (''sets'', JNum s), (''reps'', JNum r), (''weight'', JNum wt)]
                   @ [(''created_at'', JStr t)]
         in (json 201 (JObj [(''exercise'', JObj row)]), d\<lparr>exercises := exercises d @ [row]\<rparr>,
             [workout_owned usr w,
              exercise_insert usr w (field b ''exercise_name'') s r wt]))))"
proof (intro conjI impI)
  assume "\<not> (\<exists>r \<in> set (workouts d). field r ''id'' = JStr w \<and> field r ''user_id'' = JStr (uid usr))"
  then have "filter (matches [(''id'', w), (''user_id'', uid usr)]) (workouts d) = []"
    by (rule no_owned_row)
  then show "run (store new_id t) (handler rt usr (PostExercise w b)) d
        = (error_json 404 ''Workout not found'', d, [workout_owned usr w])"
    using post_exercise_not_found [OF assms] by simp
next
  assume h: "distinct (map (\<lambda>r. field r ''id'') (workouts d)) \<and> (\<exists>r \<in> set (workouts d). field r ''id'' = JStr w \<and> field r ''user_id'' = JStr (uid usr))"
  then obtain x where "x \<in> set (workouts d)" "field x ''id'' = JStr w"
    "field x ''user_id'' = JStr (uid usr)" by blast
  with h have one: "filter (matches [(''id'', w), (''user_id'', uid usr)]) (workouts d) = [x]"
    by (intro owned_row_unique) simp_all
  {
    assume "coerced rt (field b ''sets'') (field b ''reps'') (field b ''weight'') = Inl e"
    then show "run (store new_id t) (handler rt usr (PostExercise w b)) d
             = (error_json 500 e, d, [workout_owned usr w])"
      using post_exercise_throws [OF assms one] by simp
  }
  {
    assume r: "parseInt rt (field b ''sets'') = Inr s \<and> parseInt rt (field b ''reps'') = Inr r
          \<and> parseFloat rt (field b ''weight'') = Inr wt
          \<and> \<not> list_ex (\<lambda>r. field r ''id'' = JStr new_id) (exercises d)"
    then have "coerced rt (field b ''sets'') (field b ''reps'') (field b ''weight'') = Inr (s, r, wt)"
      by (simp add: coerced_returns)
    then show "run (store new_id t) (handler rt usr (PostExercise w b)) d =
        (let row = (''id'', JStr new_id) #
                   wire [(''workout_id'', JStr w), (''user_id'', JStr (uid usr)),
                         (''exercise_name'', field b ''exercise_name''),
                         (''sets'', JNum s), (''reps'', JNum r), (''weight'', JNum wt)]
                   @ [(''created_at'', JStr t)]
         in (json 201 (JObj [(''exercise'', JObj row)]), d\<lparr>exercises := exercises d @ [row]\<rparr>,
             [workout_owned usr w,
              exercise_insert usr w (field b ''exercise_name'') s r wt]))"
      using post_exercise_created [OF assms one] r by simp
  }
qed


text \<open>The claim as stated fails where a coercion throws. The workout \<open>w1\<close> belongs to \<open>A\<close>,
  and \<open>A\<close> sends \<open>sets\<close> as the object \<open>{"toString": 1}\<close>: it is truthy, so the body
  passes the validation and the ownership check finds the workout; \<open>parseInt\<close> then
  throws a \<open>TypeError\<close>, since the object cannot be converted to a string. The answer is
  500 and no exercise is stored.\<close>

theorem post_exercise_coercion_throws:
  "run (store ''e1'' ''t1'')
     (handler tabled (User ''A'')
        (PostExercise ''w1''
           [(''exercise_name'', JStr ''Squat''), (''sets'', unprintable),
            (''reps'', JNum (Fin 10)), (''weight'', JStr ''72.5'')]))
     \<lparr>workouts = [[(''id'', JStr ''w1''), (''user_id'', JStr ''A'')]], exercises = []\<rparr>
   = (error_json 500 ''Cannot convert object to primitive value'',
      \<lparr>workouts = [[(''id'', JStr ''w1''), (''user_id'', JStr ''A'')]], exercises = []\<rparr>,
      [workout_owned (User ''A'') ''w1''])"
  by (simp add: post_exercise_def Let_def field_def store_workout_owned matches_def
      coerced_def)

text \<open>The same store. A body with \<open>sets\<close> given as text and \<open>weight\<close> as decimal text is
  refused with 404 when \<open>B\<close> sends it and stored with 201 when \<open>A\<close> does; with \<open>sets\<close>
  an object that cannot be converted, \<open>A\<close> gets 500.\<close>

theorem post_exercise_ownership_witness:
  "(let d = \<lparr>workouts = [[(''id'', JStr ''w1''), (''user_id'', JStr ''A'')]], exercises = []\<rparr>;
        b = [(''exercise_name'', JStr ''Squat''), (''sets'', JStr ''3''),
             (''reps'', JNum (Fin 10)), (''weight'', JStr ''72.5'')];
        b' = [(''exercise_name'', JStr ''Squat''), (''sets'', unprintable),
              (''reps'', JNum (Fin 10)), (''weight'', JStr ''72.5'')]
    in run (store ''e1'' ''t1'') (handler tabled (User ''B'') (PostExercise ''w1'' b)) d
         = (error_json 404 ''Workout not found'', d, [workout_owned (User ''B'') ''w1''])
     \<and> fst (run (store ''e1'' ''t1'') (handler tabled (User ''A'') (PostExercise ''w1'' b)) d)
         = json 201 (JObj [(''exercise'',
             JObj [(''id'', JStr ''e1''), (''workout_id'', JStr ''w1''), (''user_id'', JStr ''A''),
                   (''exercise_name'', JStr ''Squat''), (''sets'', JNum (Fin 3)),
                   (''reps'', JNum (Fin 10)), (''weight'', JNum (Fin (145 / 2))),
                   (''created_at'', JStr ''t1'')])])
     \<and> run (store ''e1'' ''t1'') (handler tabled (User ''A'') (PostExercise ''w1'' b')) d
         = (error_json 500 ''Cannot convert object to primitive value'', d, [workout_owned (User ''A'') ''w1'']))"
proof -
  define d where "d = \<lparr>workouts = [[(''id'', JStr ''w1''), (''user_id'', JStr ''A'')]],
                        exercises = []\<rparr>"
  define b where "b = [(''exercise_name'', JStr ''Squat''), (''sets'', JStr ''3''),
             (''reps'', JNum (Fin 10)), (''weight'', JStr ''72.5'')]"
  define b' where "b' = [(''exercise_name'', JStr ''Squat''), (''sets'', unprintable),
              (''reps'', JNum (Fin 10)), (''weight'', JStr ''72.5'')]"
  have valid: "truthy (field b ''exercise_name'')" "truthy (field b ''sets'')"
    "truthy (field b ''reps'')" "field b ''weight'' \<noteq> JUndefined"
    by (simp_all add: b_def field_def)
  have valid': "truthy (field b' ''exercise_name'')" "truthy (field b' ''sets'')"
    "truthy (field b' ''reps'')" "field b' ''weight'' \<noteq> JUndefined"
    by (simp_all add: b'_def field_def)
  have 1: "run (store ''e1'' ''t1'') (handler tabled (User ''B'') (PostExercise ''w1'' b)) d
         = (error_json 404 ''Workout not found'', d, [workout_owned (User ''B'') ''w1''])"
    using post_exercise_ownership [OF valid, where d = d and w = "''w1''" and usr = "User ''B''"
        and new_id = "''e1''" and t = "''t1''" and rt = tabled and e = "''none''"
        and s = NaN and r = NaN and wt = NaN]
    by (simp add: d_def field_def)
  have 2: "fst (run (store ''e1'' ''t1'') (handler tabled (User ''A'') (PostExercise ''w1'' b)) d)
         = json 201 (JObj [(''exercise'',
             JObj [(''id'', JStr ''e1''), (''workout_id'', JStr ''w1''), (''user_id'', JStr ''A''),
                   (''exercise_name'', JStr ''Squat''), (''sets'', JNum (Fin 3)),
                   (''reps'', JNum (Fin 10)), (''weight'', JNum (Fin (145 / 2))),
                   (''created_at'', JStr ''t1'')])])"
    using post_exercise_ownership [OF valid, where d = d and w = "''w1''" and usr = "User ''A''"
        and new_id = "''e1''" and t = "''t1''" and rt = tabled and e = "''none''"
        and s = "Fin 3" and r = "Fin 10" and wt = "Fin (145 / 2)"]
    by (simp add: d_def b_def field_def wire_def Let_def coerced_def)
  have 3: "run (store ''e1'' ''t1'') (handler tabled (User ''A'') (PostExercise ''w1'' b')) d
         = (error_json 500 ''Cannot convert object to primitive value'', d, [workout_owned (User ''A'') ''w1''])"
    using post_exercise_ownership [OF valid', where d = d and w = "''w1''" and usr = "User ''A''"
        and new_id = "''e1''" and t = "''t1''" and rt = tabled
        and e = "''Cannot convert object to primitive value''"
        and s = NaN and r = NaN and wt = NaN]
    by (simp add: d_def b'_def field_def coerced_def)
  show ?thesis
    unfolding Let_def d_def [symmetric] b_def [symmetric] b'_def [symmetric]
    using 1 2 3 by simp
qed





text \<open>
  Claim C9, as the code has it. \<open>PATCH /api/exercises/:id\<close> validates nothing: whatever
  the body and whatever the store answers, the status is 200 or 500, never 400. The
  update object is built first, with \<open>parseInt(sets)\<close>, \<open>parseInt(reps)\<close> and
  \<open>parseFloat(weight)\<close> evaluated in this order. If all three return, exactly one update is
  sent, and it sets \<open>exercise_name\<close> to the body's value and the three numbers to what
  the builtins returned, so where a builtin reads \<open>NaN\<close>, as it does for an absent
  value, \<open>NaN\<close> is what the update holds. If one throws, the answer is 500 with the
  error's message and no query is sent.
\<close>

theorem patch_exercise_unvalidated:
  "status (fst (run exec (handler rt usr (PatchExercise ident b)) d)) \<in> {200, 500}
   \<and> (parseInt rt (field b ''sets'') = Inr s \<and> parseInt rt (field b ''reps'') = Inr r
        \<and> parseFloat rt (field b ''weight'') = Inr wt \<longrightarrow>
        snd (snd (run exec (handler rt usr (PatchExercise ident b)) d))
          = [exercise_update ident (field b ''exercise_name'') s r wt]
      \<and> verb (exercise_update ident (field b ''exercise_name'') s r wt)
          = Update [(''exercise_name'', field b ''exercise_name''), (''sets'', JNum s),
                    (''reps'', JNum r), (''weight'', JNum wt)])
   \<and> (coerced rt (field b ''sets'') (field b ''reps'') (field b ''weight'') = Inl e \<longrightarrow>
        run exec (handler rt usr (PatchExercise ident b)) d = (error_json 500 e, d, []))"
proof (intro conjI impI)
  show "status (fst (run exec (handler rt usr (PatchExercise ident b)) d)) \<in> {200, 500}"
  proof (cases "coerced rt (field b ''sets'') (field b ''reps'') (field b ''weight'')")
    case (Inl e)
    then show ?thesis
      by (simp add: patch_exercise_def error_json_def json_def)
  next
    case (Inr x)
    obtain s r wt where x: "x = (s, r, wt)" by (cases x)
    obtain res d' where ex:
      "exec (exercise_update ident (field b ''exercise_name'') s r wt) d = (res, d')"
      by (cases "exec (exercise_update ident (field b ''exercise_name'') s r wt) d")
    show ?thesis
      using Inr x ex
      by (simp add: patch_exercise_def or_throw_def json_def error_json_def
          split: option.splits)
  qed
next
  assume h: "parseInt rt (field b ''sets'') = Inr s \<and> parseInt rt (field b ''reps'') = Inr r
        \<and> parseFloat rt (field b ''weight'') = Inr wt"
  then have c: "coerced rt (field b ''sets'') (field b ''reps'') (field b ''weight'')
                  = Inr (s, r, wt)"
    by (simp add: coerced_returns)
  obtain res d' where ex:
    "exec (exercise_update ident (field b ''exercise_name'') s r wt) d = (res, d')"
    by (cases "exec (exercise_update ident (field b ''exercise_name'') s r wt) d")
  show "snd (snd (run exec (handler rt usr (PatchExercise ident b)) d))
          = [exercise_update ident (field b ''exercise_name'') s r wt]"
    using c ex by (simp add: patch_exercise_def or_throw_def split: option.splits)
  show "verb (exercise_update ident (field b ''exercise_name'') s r wt)
          = Update [(''exercise_name'', field b ''exercise_name''), (''sets'', JNum s),
                    (''reps'', JNum r), (''weight'', JNum wt)]"
    by (simp add: exercise_update_def from_table_def)
next
  assume "coerced rt (field b ''sets'') (field b ''reps'') (field b ''weight'') = Inl e"
  then show "run exec (handler rt usr (PatchExercise ident b)) d = (error_json 500 e, d, [])"
    by (simp add: patch_exercise_def)
qed

text \<open>The claim as stated fails where a coercion throws: with \<open>sets\<close> the object
  \<open>{"toString": 1}\<close>, which is no number, nothing is written at all. The request is
  answered with 500 and no update is sent.\<close>

theorem patch_exercise_coercion_throws:
  "run (store ''n'' ''t'')
     (handler tabled (User ''A'')
        (PatchExercise ''e1''
           [(''exercise_name'', JStr ''Squat''), (''sets'', unprintable),
            (''reps'', JNum (Fin 10)), (''weight'', JNum (Fin 50))]))
     \<lparr>workouts = [],
       exercises = [[(''id'', JStr ''e1''), (''user_id'', JStr ''A''), (''sets'', JNum (Fin 3))]]\<rparr>
   = (error_json 500 ''Cannot convert object to primitive value'',
      \<lparr>workouts = [],
        exercises = [[(''id'', JStr ''e1''), (''user_id'', JStr ''A''), (''sets'', JNum (Fin 3))]]\<rparr>,
      [])"
  by (simp add: patch_exercise_def field_def coerced_def)

text \<open>An empty body sent for the exercise \<open>e1\<close>: the builtins read \<open>undefined\<close> as
  \<open>NaN\<close>, the update holds \<open>NaN\<close> three times and the answer of the store of this theory
  is 200. With \<open>sets\<close> an object that cannot be converted the answer is 500.\<close>

theorem patch_exercise_unvalidated_witness:
  "(let d = \<lparr>workouts = [],
              exercises = [[(''id'', JStr ''e1''), (''user_id'', JStr ''A''), (''sets'', JNum (Fin 3))]]\<rparr>
    in snd (snd (run (store ''n'' ''t'') (handler tabled (User ''A'') (PatchExercise ''e1'' [])) d))
         = [exercise_update ''e1'' JUndefined NaN NaN NaN]
     \<and> status (fst (run (store ''n'' ''t'') (handler tabled (User ''A'') (PatchExercise ''e1'' [])) d))
         = 200
     \<and> verb (exercise_update ''e1'' JUndefined NaN NaN NaN)
         = Update [(''exercise_name'', JUndefined), (''sets'', JNum NaN), (''reps'', JNum NaN),
                   (''weight'', JNum NaN)]
     \<and> run (store ''n'' ''t'') (handler tabled (User ''A'')
              (PatchExercise ''e1'' [(''sets'', unprintable)])) d
         = (error_json 500 ''Cannot convert object to primitive value'', d, []))"
proof -
  define d where "d = \<lparr>workouts = [],
              exercises = [[(''id'', JStr ''e1''), (''user_id'', JStr ''A''), (''sets'', JNum (Fin 3))]]\<rparr>"
  note u = patch_exercise_unvalidated [where exec = "store ''n'' ''t''" and rt = tabled
      and usr = "User ''A''" and ident = "''e1''" and d = d]
  note u0 = u [where b = "[]" and s = NaN and r = NaN and wt = NaN and e = "''none''"]
  have 1: "snd (snd (run (store ''n'' ''t'') (handler tabled (User ''A'') (PatchExercise ''e1'' [])) d))
         = [exercise_update ''e1'' JUndefined NaN NaN NaN]"
    using u0 by (simp add: field_def)
  have 2: "status (fst (run (store ''n'' ''t'') (handler tabled (User ''A'') (PatchExercise ''e1'' [])) d))
         = 200"
    using u0
    by (simp add: d_def patch_exercise_def exercise_update_def from_table_def store_def
        rows_of_def set_rows_def written_def answer_def matches_def field_def or_throw_def
        json_def coerced_def)
  have 3: "verb (exercise_update ''e1'' JUndefined NaN NaN NaN)
         = Update [(''exercise_name'', JUndefined), (''sets'', JNum NaN), (''reps'', JNum NaN),
                   (''weight'', JNum NaN)]"
    using u0 by (simp add: field_def)
  have 4: "run (store ''n'' ''t'') (handler tabled (User ''A'')
              (PatchExercise ''e1'' [(''sets'', unprintable)])) d
         = (error_json 500 ''Cannot convert object to primitive value'', d, [])"
    using u [where b = "[(''sets'', unprintable)]" and s = NaN and r = NaN and wt = NaN
        and e = "''Cannot convert object to primitive value''"]
    by (simp add: field_def coerced_def)
  show ?thesis
    unfolding Let_def d_def [symmetric] using 1 2 3 4 by simp
qed

text \<open>What reaches the store is the update as JSON: for the empty body the three
  numbers arrive as \<open>null\<close> and \<open>exercise_name\<close>, being \<open>undefined\<close>, is left out, so
  the stored name stays.\<close>

lemma patch_exercise_on_the_wire:
  "fst (snd (run (store ''n'' ''t'') (patch_exercise tabled (User ''A'') ''e1'' [])
      \<lparr>workouts = [],
       exercises = [[(''id'', JStr ''e1''), (''exercise_name'', JStr ''Squat''),
                     (''sets'', JNum (Fin 3))]]\<rparr>))
   = \<lparr>workouts = [],
      exercises = [[(''id'', JStr ''e1''), (''exercise_name'', JStr ''Squat''),
                    (''sets'', JNull), (''reps'', JNull), (''weight'', JNull)]]\<rparr>"
  by (simp add: patch_exercise_def exercise_update_def from_table_def store_def rows_of_def
      set_rows_def written_def answer_def matches_def field_def or_throw_def
      apply_update_def wire_def coerced_def)

subsection \<open>Which queries are scoped to the caller\<close>

inductive_cases issued_RespondE: "issued (Respond r) q"

inductive_cases issued_CallE: "issued (Call q k) q'"

lemma issued_or_throw:
  "issued (or_throw res p) q \<Longrightarrow> issued p q"
  by (auto simp: or_throw_def split: option.splits elim: issued_RespondE)

lemma scoped_endpoints:
  assumes "issued (handler rt usr ep) q"
    and "\<forall>w. ep \<noteq> GetExercises w" and "\<forall>i b. ep \<noteq> PatchExercise i b"
    and "\<forall>i. ep \<noteq> DeleteExercise i"
  shows "carries_user usr q"
proof (cases ep)
  case GetWorkouts
  with assms(1) show ?thesis
    by (auto simp: get_workouts_def carries_user_def workouts_list_def from_table_def
        elim!: issued_CallE issued_RespondE dest!: issued_or_throw
        split: jsval.splits sum.splits)
next
  case (GetWorkout i)
  with assms(1) show ?thesis
    by (auto simp: get_workout_def carries_user_def workout_by_id_def from_table_def
        elim!: issued_CallE issued_RespondE dest!: issued_or_throw split: if_splits)
next
  case (PostWorkout b)
  with assms(1) show ?thesis
    by (auto simp: post_workout_def Let_def carries_user_def workout_insert_def from_table_def
        field_def
        elim!: issued_CallE issued_RespondE dest!: issued_or_throw split: if_splits)
next
  case (PatchWorkout i b)
  with assms(1) show ?thesis
    by (auto simp: patch_workout_def carries_user_def workout_update_def from_table_def
        elim!: issued_CallE issued_RespondE dest!: issued_or_throw)
next
  case (DeleteWorkout i)
  with assms(1) show ?thesis
    by (auto simp: delete_workout_def carries_user_def workout_delete_def from_table_def
        elim!: issued_CallE issued_RespondE dest!: issued_or_throw)
next
  case (PostExercise w b)
  with assms(1) show ?thesis
    by (auto simp: post_exercise_def Let_def carries_user_def workout_owned_def
        exercise_insert_def from_table_def field_def
        elim!: issued_CallE issued_RespondE dest!: issued_or_throw
        split: if_splits sum.splits prod.splits)
qed (use assms in simp_all)


text \<open>
  Claim C1. Not every query carries the caller's user id. \<open>DELETE /api/exercises/:id\<close> and
  \<open>PATCH /api/exercises/:id\<close> filter on the exercise id alone. Here the exercise \<open>e1\<close>
  belongs to \<open>A\<close>; \<open>B\<close>, authenticated with a token of their own, deletes it, and in the
  same way overwrites it, and the store (which applies no policy of its own) does as
  asked.
\<close>

theorem exercise_queries_unscoped:
  "(let getUser = (\<lambda>t. if t = ''tokenB'' then Reply (Some (User ''B'')) None
                       else Reply None (Some ''invalid JWT''));
        e1 = [(''id'', JStr ''e1''), (''workout_id'', JStr ''w1''), (''user_id'', JStr ''A''),
              (''exercise_name'', JStr ''Squat''), (''sets'', JNum (Fin 5))];
        d = \<lparr>workouts = [[(''id'', JStr ''w1''), (''user_id'', JStr ''A'')]], exercises = [e1]\<rparr>;
        b = [(''exercise_name'', JStr ''x''), (''sets'', JNum (Fin 1)), (''reps'', JNum (Fin 1)),
             (''weight'', JNum (Fin 1))]
    in run (store ''n'' ''t'') (protected getUser tabled (Some ''Bearer tokenB'')
              (DeleteExercise ''e1'')) d
         = (json 200 (JObj [(''message'', JStr ''Exercise deleted successfully'')]),
            d\<lparr>exercises := []\<rparr>, [exercise_delete ''e1''])
     \<and> eqs (exercise_delete ''e1'') = [(''id'', ''e1'')]
     \<and> \<not> carries_user (User ''B'') (exercise_delete ''e1'')
     \<and> fst (snd (run (store ''n'' ''t'') (protected getUser tabled (Some ''Bearer tokenB'')
              (PatchExercise ''e1'' b)) d))
         = d\<lparr>exercises := [[(''id'', JStr ''e1''), (''workout_id'', JStr ''w1''),
                              (''user_id'', JStr ''A''), (''exercise_name'', JStr ''x''),
                              (''sets'', JNum (Fin 1)), (''reps'', JNum (Fin 1)),
                              (''weight'', JNum (Fin 1))]]\<rparr>
     \<and> \<not> carries_user (User ''B'') (exercise_update ''e1'' (JStr ''x'') (Fin 1) (Fin 1) (Fin 1)))"
  by (simp add: Let_def protected_def authenticateUser_def index_def
      delete_exercise_def patch_exercise_def exercise_delete_def exercise_update_def
      from_table_def carries_user_def store_def rows_of_def set_rows_def written_def
      answer_def cascade_def matches_def field_def or_throw_def apply_update_def wire_def
      coerced_def)


end
